theory Spec2Isabelle
  imports Main "HOL-Library.Sublist"
begin

section \<open>The coursier module of the Scala Steward action\<close>

text \<open>
  The module \<^verbatim>\<open>src/modules/coursier.ts\<close> is a sequence of calls to collaborators outside
  the repository (\<^verbatim>\<open>@actions/core\<close>, \<^verbatim>\<open>@actions/exec\<close>, \<^verbatim>\<open>@actions/io\<close>,
  \<^verbatim>\<open>@actions/tool-cache\<close>, \<^verbatim>\<open>@actions/cache\<close>, Node's \<^verbatim>\<open>path\<close> and \<^verbatim>\<open>os\<close>, the clock).
  Every \<^verbatim>\<open>async\<close> function becomes a function on the trace of effects performed so far,
  returning either the thrown error or the value, together with the extended trace.
  The collaborators are parameters, collected in the record \<open>env\<close>; each answer may depend
  on everything that happened before the call.
\<close>

subsection \<open>Errors, options, events\<close>

text \<open>A JavaScript \<^verbatim>\<open>Error\<close>; the source reads only its \<^verbatim>\<open>message\<close>.\<close>

datatype error = Error (message: string)

text \<open>The options of \<^verbatim>\<open>exec.exec\<close> that the source sets (an absent flag is \<open>False\<close>).\<close>

record exec_options =
  silent :: bool
  ignoreReturnCode :: bool

text \<open>
  One entry per effect: the four log levels and the grouping calls of \<^verbatim>\<open>@actions/core\<close>,
  \<^verbatim>\<open>core.addPath\<close>, and the calls to the file system, the downloader, the process
  launcher and the cache store, each with the arguments it was given.
\<close>

datatype event =
    CoreDebug string
  | CoreInfo string
  | CoreWarning string
  | CoreError string
  | StartGroup string
  | EndGroup
  | AddPath string
  | MkdirP string
  | DownloadTool string string
  | Exec string "string list" exec_options
  | RmRF string
  | RestoreCache "string list" string "string list"
  | SaveCache "string list" string

type_synonym trace = "event list"

text \<open>
  What a spawned process hands to the listeners of \<^verbatim>\<open>exec.exec\<close>, in the order it does so:
  raw chunks of standard output, complete lines of standard output, complete lines of
  the error stream.
\<close>

datatype emission = Stdout string | Stdline string | Errline string

text \<open>
  A process as \<^verbatim>\<open>exec.exec\<close> sees it: what it hands to the listeners, and how it ends:
  it could not be started or broke off (\<open>Inl\<close>, the error \<^verbatim>\<open>exec.exec\<close> rejects with whatever
  the options are), or it ran and exited with a code (\<open>Inr\<close>).
\<close>

record process =
  emitted :: "emission list"
  outcome :: "error + int"

text \<open>The wrapper class of \<^verbatim>\<open>../core/types\<close>; only its field is read here.\<close>

datatype NonEmptyString = NonEmptyString (value': string)

text \<open>An element of the argument array of \<open>launch\<close>: \<^verbatim>\<open>string | string[]\<close>.\<close>

datatype arg = Str string | Group "string list"

subsection \<open>The collaborators\<close>

record env =
  getInput :: "string \<Rightarrow> string"
  homedir :: string
  join :: "string list \<Rightarrow> string"
  trim :: "string \<Rightarrow> string"
  now :: "trace \<Rightarrow> nat"
  mkdirP :: "trace \<Rightarrow> string \<Rightarrow> error + unit"
  downloadTool :: "trace \<Rightarrow> string \<Rightarrow> string \<Rightarrow> error + string"
  spawn :: "trace \<Rightarrow> string \<Rightarrow> string list \<Rightarrow> exec_options \<Rightarrow> process"
  rmRF :: "trace \<Rightarrow> string \<Rightarrow> error + unit"
  cacheRestore :: "trace \<Rightarrow> string list \<Rightarrow> string \<Rightarrow> string list \<Rightarrow> error + string option"
  cacheSave :: "trace \<Rightarrow> string list \<Rightarrow> string \<Rightarrow> error + nat"
  exitCodeError :: "string \<Rightarrow> int \<Rightarrow> error"

text \<open>
  \<open>join\<close> is \<^verbatim>\<open>path.join\<close>, \<open>trim\<close> is \<^verbatim>\<open>String.prototype.trim\<close>, \<open>now\<close> is \<^verbatim>\<open>Date.now\<close>
  (milliseconds since the epoch, read as a natural number), \<open>cacheRestore\<close> resolves with
  the key that was hit or with \<^verbatim>\<open>undefined\<close>, \<open>exitCodeError\<close> is the error with which
  \<^verbatim>\<open>exec.exec\<close> rejects when a tool exits with a code other than zero and
  \<open>ignoreReturnCode\<close> is not set.
\<close>

subsection \<open>Asynchronous functions\<close>

type_synonym 'a io = "trace \<Rightarrow> (error + 'a) \<times> trace"

definition io_return :: "'a \<Rightarrow> 'a io" where
  "io_return x = (\<lambda>tr. (Inr x, tr))"

definition io_throw :: "error \<Rightarrow> 'a io" where
  "io_throw e = (\<lambda>tr. (Inl e, tr))"

text \<open>\<^verbatim>\<open>const x = await m; f(x)\<close>: a rejection of \<open>m\<close> skips \<open>f\<close>.\<close>

definition io_bind :: "'a io \<Rightarrow> ('a \<Rightarrow> 'b io) \<Rightarrow> 'b io" where
  "io_bind m f = (\<lambda>tr. case m tr of (Inl e, tr') \<Rightarrow> (Inl e, tr') | (Inr x, tr') \<Rightarrow> f x tr')"

text \<open>\<^verbatim>\<open>try { m } catch (error) { h(error) }\<close>.\<close>

definition io_catch :: "'a io \<Rightarrow> (error \<Rightarrow> 'a io) \<Rightarrow> 'a io" where
  "io_catch m h = (\<lambda>tr. case m tr of (Inl e, tr') \<Rightarrow> h e tr' | (Inr x, tr') \<Rightarrow> (Inr x, tr'))"

definition emit :: "event \<Rightarrow> unit io" where
  "emit ev = (\<lambda>tr. (Inr (), tr @ [ev]))"

definition core_debug :: "string \<Rightarrow> unit io" where
  "core_debug s = emit (CoreDebug s)"

definition core_info :: "string \<Rightarrow> unit io" where
  "core_info s = emit (CoreInfo s)"

definition core_warning :: "string \<Rightarrow> unit io" where
  "core_warning s = emit (CoreWarning s)"

definition core_startGroup :: "string \<Rightarrow> unit io" where
  "core_startGroup s = emit (StartGroup s)"

definition core_endGroup :: "unit io" where
  "core_endGroup = emit EndGroup"

definition core_addPath :: "string \<Rightarrow> unit io" where
  "core_addPath p = emit (AddPath p)"

definition io_mkdirP :: "env \<Rightarrow> string \<Rightarrow> unit io" where
  "io_mkdirP env p = (\<lambda>tr. (mkdirP env tr p, tr @ [MkdirP p]))"

definition io_rmRF :: "env \<Rightarrow> string \<Rightarrow> unit io" where
  "io_rmRF env p = (\<lambda>tr. (rmRF env tr p, tr @ [RmRF p]))"

definition tc_downloadTool :: "env \<Rightarrow> string \<Rightarrow> string \<Rightarrow> string io" where
  "tc_downloadTool env url dest = (\<lambda>tr. (downloadTool env tr url dest, tr @ [DownloadTool url dest]))"

definition cache_restoreCache :: "env \<Rightarrow> string list \<Rightarrow> string \<Rightarrow> string list \<Rightarrow> string option io" where
  "cache_restoreCache env paths primaryKey restoreKeys =
     (\<lambda>tr. (cacheRestore env tr paths primaryKey restoreKeys,
            tr @ [RestoreCache paths primaryKey restoreKeys]))"

definition cache_saveCache :: "env \<Rightarrow> string list \<Rightarrow> string \<Rightarrow> nat io" where
  "cache_saveCache env paths primaryKey =
     (\<lambda>tr. (cacheSave env tr paths primaryKey, tr @ [SaveCache paths primaryKey]))"

subsection \<open>Running a process with listeners\<close>

text \<open>
  The listeners the source installs are of two kinds: a logging function of
  \<^verbatim>\<open>@actions/core\<close> given as \<open>stdline\<close> or \<open>errline\<close> (here the constructor of the event it
  leaves in the trace), and the closure of \<open>execute\<close> given as \<open>stdout\<close>, which updates a
  local variable (here a function on the value of that variable).
\<close>

record 'l listeners =
  stdout :: "(string \<Rightarrow> 'l \<Rightarrow> 'l) option"
  stdline :: "(string \<Rightarrow> event) option"
  errline :: "(string \<Rightarrow> event) option"

fun notify :: "'l listeners \<Rightarrow> emission \<Rightarrow> 'l \<times> trace \<Rightarrow> 'l \<times> trace" where
  "notify ls (Stdout d) (l, tr) = (case stdout ls of None \<Rightarrow> (l, tr) | Some f \<Rightarrow> (f d l, tr))"
| "notify ls (Stdline s) (l, tr) = (case stdline ls of None \<Rightarrow> (l, tr) | Some g \<Rightarrow> (l, tr @ [g s]))"
| "notify ls (Errline s) (l, tr) = (case errline ls of None \<Rightarrow> (l, tr) | Some g \<Rightarrow> (l, tr @ [g s]))"

text \<open>
  \<^verbatim>\<open>exec.exec(tool, args, {..., listeners})\<close>: the call is recorded, the listeners are
  notified in the order of the emissions, then the promise settles: it is rejected when
  the process could not run, and when the exit code is not zero unless \<open>ignoreReturnCode\<close>
  is set; otherwise it resolves with the exit code. The second component of a resolved
  result is the final value of the variable the \<open>stdout\<close> closure updates.
\<close>

definition exec_exec ::
  "env \<Rightarrow> string \<Rightarrow> string list \<Rightarrow> exec_options \<Rightarrow> 'l listeners \<Rightarrow> 'l \<Rightarrow> (int \<times> 'l) io" where
  "exec_exec env tool args opts ls l0 =
     (\<lambda>tr. let p = spawn env tr tool args opts;
               (l, tr') = fold (notify ls) (emitted p) (l0, tr @ [Exec tool args opts])
           in (case outcome p of
                 Inl e \<Rightarrow> (Inl e, tr')
               | Inr code \<Rightarrow>
                   if code \<noteq> 0 \<and> \<not> ignoreReturnCode opts
                   then (Inl (exitCodeError env tool code), tr')
                   else (Inr (code, l), tr')))"

subsection \<open>launch\<close>

text \<open>\<^verbatim>\<open>Array.prototype.flatMap\<close> with a callback that returns arrays.\<close>

definition flatMap :: "('a \<Rightarrow> 'b list) \<Rightarrow> 'a list \<Rightarrow> 'b list" where
  "flatMap f xs = concat (map f xs)"

definition launch :: "env \<Rightarrow> string \<Rightarrow> NonEmptyString option \<Rightarrow> arg list option \<Rightarrow> unit io" where
  "launch env app version args_opt =
     (let args = (case args_opt of None \<Rightarrow> [] | Some a \<Rightarrow> a);
          name = (case version of Some v \<Rightarrow> app @ '':'' @ value' v | None \<Rightarrow> app)
      in io_bind (core_startGroup (''Launching '' @ name)) (\<lambda>_.
         let launchArgs =
               [''launch'', ''--contrib'', ''-r'', ''sonatype:snapshots'', name, ''--'']
               @ flatMap (\<lambda>arg. case arg of Str s \<Rightarrow> [s] | Group g \<Rightarrow> g) args
         in io_bind (exec_exec env ''cs'' launchArgs \<lparr>silent = True, ignoreReturnCode = True\<rparr>
                       \<lparr>stdout = None, stdline = Some CoreInfo, errline = Some CoreError\<rparr> ())
              (\<lambda>(code, _).
         io_bind core_endGroup (\<lambda>_.
         if code \<noteq> 0 then io_throw (Error (''Launching '' @ name @ '' failed''))
         else io_return ()))))"

subsection \<open>execute\<close>

text \<open>\<^verbatim>\<open>Array.prototype.join\<close> on an array of strings.\<close>

fun array_join :: "string \<Rightarrow> string list \<Rightarrow> string" where
  "array_join sep [] = []"
| "array_join sep [x] = x"
| "array_join sep (x # y # ys) = x @ sep @ array_join sep (y # ys)"

definition execute :: "env \<Rightarrow> string \<Rightarrow> string list \<Rightarrow> string io" where
  "execute env tool args =
     io_bind (exec_exec env tool args \<lparr>silent = True, ignoreReturnCode = True\<rparr>
                \<lparr>stdout = Some (\<lambda>data output. output @ data), stdline = None,
                 errline = Some CoreDebug\<rparr> [])
       (\<lambda>(code, output).
          if code \<noteq> 0
          then io_throw (Error (''There was an error while executing '' @ [CHR 0x27] @ tool
                                 @ '' '' @ array_join '' '' args @ [CHR 0x27]))
          else io_return output)"

subsection \<open>install\<close>

text \<open>The check mark U+2713 that starts the three success lines, in UTF-8.\<close>

definition check_mark :: string where
  "check_mark = [CHR 0xE2, CHR 0x9C, CHR 0x93]"

text \<open>\<^verbatim>\<open>s.replace(/^scalafmt /, '')\<close>.\<close>

definition replace_scalafmt :: "string \<Rightarrow> string" where
  "replace_scalafmt s = (if prefix ''scalafmt '' s then drop 9 s else s)"

text \<open>The body of the \<^verbatim>\<open>try\<close> block of \<open>install\<close>.\<close>

definition install_try :: "env \<Rightarrow> unit io" where
  "install_try env =
     (let coursierUrl = getInput env ''coursier-cli-url'' in
      io_bind (core_debug (''Installing coursier from '' @ coursierUrl)) (\<lambda>_.
      let binPath = join env [homedir env, ''bin''] in
      io_bind (io_mkdirP env binPath) (\<lambda>_.
      io_bind (tc_downloadTool env coursierUrl (join env [binPath, ''cs.gz''])) (\<lambda>zip.
      io_bind (exec_exec env ''gzip'' [''-d'', zip] \<lparr>silent = True, ignoreReturnCode = False\<rparr>
                 \<lparr>stdout = None, stdline = None, errline = None\<rparr> ()) (\<lambda>_.
      io_bind (exec_exec env ''chmod'' [''+x'', join env [binPath, ''cs'']]
                 \<lparr>silent = True, ignoreReturnCode = False\<rparr>
                 \<lparr>stdout = None, stdline = None, errline = None\<rparr> ()) (\<lambda>_.
      io_bind (core_addPath binPath) (\<lambda>_.
      io_bind (exec_exec env ''cs''
                 [''setup'', ''--yes'', ''--jvm'', ''adoptium:17'', ''--apps'',
                  ''scalafmt,scalafix'', ''--install-dir'', binPath]
                 \<lparr>silent = True, ignoreReturnCode = False\<rparr>
                 \<lparr>stdout = None, stdline = Some CoreDebug, errline = Some CoreDebug\<rparr> ()) (\<lambda>_.
      io_bind (execute env ''cs'' [''version'']) (\<lambda>coursierVersion.
      io_bind (core_info (check_mark @ '' Coursier installed, version: ''
                           @ trim env coursierVersion)) (\<lambda>_.
      io_bind (execute env ''scalafmt'' [''--version'']) (\<lambda>scalafmtVersion.
      io_bind (core_info (check_mark @ '' Scalafmt installed, version: ''
                           @ trim env (replace_scalafmt scalafmtVersion))) (\<lambda>_.
      io_bind (execute env ''scalafix'' [''--version'']) (\<lambda>scalafixVersion.
      core_info (check_mark @ '' Scalafix installed, version: ''
                  @ trim env scalafixVersion))))))))))))))"

definition install :: "env \<Rightarrow> unit io" where
  "install env =
     io_catch (install_try env)
       (\<lambda>error. io_bind (core_debug (message error)) (\<lambda>_.
                 io_throw (Error ''Unable to install coursier or managed tools'')))"

subsection \<open>restoreCache and saveCache\<close>

text \<open>\<^verbatim>\<open>Number.prototype.toString\<close> on a non-negative integer: its decimal digits.\<close>

definition digit :: "nat \<Rightarrow> char" where
  "digit d = ''0123456789'' ! d"

function toString :: "nat \<Rightarrow> string" where
  "toString n = (if n < 10 then [digit n] else toString (n div 10) @ [digit (n mod 10)])"
  by pat_completeness auto
termination
  by (relation "measure (\<lambda>n. n)") auto

declare toString.simps [simp del]

definition date_now :: "env \<Rightarrow> nat io" where
  "date_now env = (\<lambda>tr. (Inr (now env tr), tr))"

text \<open>The truth value JavaScript gives to a \<^verbatim>\<open>string | undefined\<close>.\<close>

definition truthy :: "string option \<Rightarrow> bool" where
  "truthy r = (case r of None \<Rightarrow> False | Some s \<Rightarrow> s \<noteq> [])"

definition restoreCache :: "env \<Rightarrow> string \<Rightarrow> unit io" where
  "restoreCache env hash =
     io_catch
       (io_bind (core_startGroup ''Trying to restore Coursier's cache...'') (\<lambda>_.
        io_bind (date_now env) (\<lambda>t.
        io_bind (cache_restoreCache env
                   [join env [homedir env, ''.cache'', ''coursier'', ''v1'']]
                   (''coursier-cache-'' @ hash @ ''-'' @ toString t)
                   [''coursier-cache-'' @ hash, ''coursier-cache-'']) (\<lambda>cacheHit.
        io_bind (if truthy cacheHit then core_info ''Coursier cache was restored''
                 else core_info ''Coursier cache wasn't found'') (\<lambda>_.
        core_endGroup)))))
       (\<lambda>error. io_bind (core_debug (message error)) (\<lambda>_.
                 io_bind (core_warning ''Unable to restore Coursier's cache'') (\<lambda>_.
                 core_endGroup)))"

definition saveCache :: "env \<Rightarrow> string \<Rightarrow> unit io" where
  "saveCache env hash =
     io_catch
       (io_bind (core_startGroup ''Saving Coursier's cache...'') (\<lambda>_.
        io_bind (date_now env) (\<lambda>t.
        io_bind (cache_saveCache env
                   [join env [homedir env, ''.cache'', ''coursier'', ''v1'']]
                   (''coursier-cache-'' @ hash @ ''-'' @ toString t)) (\<lambda>_.
        io_bind (core_info ''Coursier cache has been saved'') (\<lambda>_.
        core_endGroup)))))
       (\<lambda>error. io_bind (core_debug (message error)) (\<lambda>_.
                 io_bind (core_warning ''Unable to save Coursier's cache'') (\<lambda>_.
                 core_endGroup)))"

subsection \<open>remove\<close>

definition remove :: "env \<Rightarrow> unit io" where
  "remove env =
     io_bind (io_rmRF env (join env [homedir env, ''.cache'', ''coursier'', ''v1''])) (\<lambda>_.
     io_bind (exec_exec env ''cs'' [''uninstall'', ''--all'']
                \<lparr>silent = True, ignoreReturnCode = True\<rparr>
                \<lparr>stdout = None, stdline = Some CoreDebug, errline = Some CoreDebug\<rparr> ()) (\<lambda>_.
     io_bind (io_rmRF env (join env [homedir env, ''bin'', ''cs''])) (\<lambda>_.
     io_bind (io_rmRF env (join env [homedir env, ''bin'', ''scalafmt''])) (\<lambda>_.
     io_rmRF env (join env [homedir env, ''bin'', ''scalafix''])))))"

section \<open>Vocabulary of the specification\<close>

text \<open>The events an asynchronous function adds to the trace it starts from.\<close>

definition appended :: "'a io \<Rightarrow> trace \<Rightarrow> trace" where
  "appended m tr = drop (length tr) (snd (m tr))"

text \<open>Log output and log grouping, as opposed to effects on the machine and the store.\<close>

fun is_log :: "event \<Rightarrow> bool" where
  "is_log (CoreDebug _) = True"
| "is_log (CoreInfo _) = True"
| "is_log (CoreWarning _) = True"
| "is_log (CoreError _) = True"
| "is_log (StartGroup _) = True"
| "is_log EndGroup = True"
| "is_log _ = False"

definition effects :: "trace \<Rightarrow> trace" where
  "effects tr = filter (\<lambda>ev. \<not> is_log ev) tr"

text \<open>The qualified name of an application: \<open>app\<close>, or \<open>app:version\<close>.\<close>

fun qualified_name :: "string \<Rightarrow> NonEmptyString option \<Rightarrow> string" where
  "qualified_name app None = app"
| "qualified_name app (Some v) = app @ '':'' @ value' v"

text \<open>A mixed list with every group inlined in place.\<close>

fun inline_groups :: "arg list \<Rightarrow> string list" where
  "inline_groups [] = []"
| "inline_groups (Str s # rest) = s # inline_groups rest"
| "inline_groups (Group g # rest) = g @ inline_groups rest"

text \<open>The chunks of standard output and the lines of the error stream of a process.\<close>

fun stdout_chunks :: "emission list \<Rightarrow> string list" where
  "stdout_chunks [] = []"
| "stdout_chunks (Stdout d # es) = d # stdout_chunks es"
| "stdout_chunks (_ # es) = stdout_chunks es"

fun errlines :: "emission list \<Rightarrow> string list" where
  "errlines [] = []"
| "errlines (Errline s # es) = s # errlines es"
| "errlines (_ # es) = errlines es"

text \<open>The lines of both streams of a process, in the order they were written.\<close>

fun lines :: "emission list \<Rightarrow> string list" where
  "lines [] = []"
| "lines (Stdline s # es) = s # lines es"
| "lines (Errline s # es) = s # lines es"
| "lines (_ # es) = lines es"

text \<open>
  The error, if any, with which a call of \<^verbatim>\<open>exec.exec\<close> without \<open>ignoreReturnCode\<close> fails
  on a process, and the error, if any, with which \<open>execute\<close> fails on it.
\<close>

definition strict_failure :: "env \<Rightarrow> string \<Rightarrow> process \<Rightarrow> error option" where
  "strict_failure env tool p =
     (case outcome p of
        Inl e \<Rightarrow> Some e
      | Inr code \<Rightarrow> if code = 0 then None else Some (exitCodeError env tool code))"

definition execute_failure :: "string \<Rightarrow> string list \<Rightarrow> process \<Rightarrow> error option" where
  "execute_failure tool args p =
     (case outcome p of
        Inl e \<Rightarrow> Some e
      | Inr code \<Rightarrow>
          if code = 0 then None
          else Some (Error (''There was an error while executing '' @ [CHR 0x27] @ tool @ '' ''
                             @ array_join '' '' args @ [CHR 0x27])))"

text \<open>The primary keys and the fallback keys handed to the cache store, in order.\<close>

fun primary_keys :: "trace \<Rightarrow> string list" where
  "primary_keys [] = []"
| "primary_keys (RestoreCache paths k fs # tr) = k # primary_keys tr"
| "primary_keys (SaveCache paths k # tr) = k # primary_keys tr"
| "primary_keys (_ # tr) = primary_keys tr"

fun fallback_keys :: "trace \<Rightarrow> string list" where
  "fallback_keys [] = []"
| "fallback_keys (RestoreCache paths k fs # tr) = fs @ fallback_keys tr"
| "fallback_keys (_ # tr) = fallback_keys tr"

text \<open>A non-empty string of decimal digits.\<close>

definition is_digits :: "string \<Rightarrow> bool" where
  "is_digits ds = (ds \<noteq> [] \<and> list_all (\<lambda>c. c \<in> set ''0123456789'') ds)"

text \<open>The number a string of decimal digits denotes, most significant digit first.\<close>

definition decimal_value :: "string \<Rightarrow> nat" where
  "decimal_value ds = foldl (\<lambda>acc c. 10 * acc + (of_char c - 48)) 0 ds"

text \<open>A numeral without superfluous zeros: a single digit, or a first digit from 1 to 9.\<close>

definition no_leading_zero :: "string \<Rightarrow> bool" where
  "no_leading_zero ds = (case ds of [] \<Rightarrow> False | c # cs \<Rightarrow> cs = [] \<or> c \<in> set ''123456789'')"

section \<open>Concrete environments\<close>

text \<open>
  A runner on which every collaborator succeeds: the home directory is
  \<^verbatim>\<open>/home/runner\<close>, paths are joined with a slash, the clock stands at
  1700000000000, every process prints one chunk and one line on each stream and exits
  with code 0, the cache store misses.
\<close>

definition runner :: env where
  "runner = \<lparr>
     getInput = (\<lambda>_. ''https://example.org/cs.gz''),
     homedir = ''/home/runner'',
     join = array_join ''/'',
     trim = (\<lambda>s. s),
     now = (\<lambda>_. 1700000000000),
     mkdirP = (\<lambda>_ _. Inr ()),
     downloadTool = (\<lambda>_ _ dest. Inr dest),
     spawn = (\<lambda>_ _ _ _. \<lparr>emitted = [Stdout ''2.1'', Stdline ''2.1.10'', Errline ''warn'', Stdout ''.10''],
                          outcome = Inr 0\<rparr>),
     rmRF = (\<lambda>_ _. Inr ()),
     cacheRestore = (\<lambda>_ _ _ _. Inr None),
     cacheSave = (\<lambda>_ _ _. Inr 7),
     exitCodeError = (\<lambda>tool code. Error (''The process '' @ [CHR 0x27] @ ''/usr/bin/'' @ tool
                                             @ [CHR 0x27] @ '' failed with exit code '' @ toString (nat code)))\<rparr>"

text \<open>The same runner, where every process exits with code 1.\<close>

definition runner_exit1 :: env where
  "runner_exit1 = runner\<lparr>spawn := (\<lambda>_ _ _ _. \<lparr>emitted = [Stdout ''2.1'', Errline ''boom''], outcome = Inr 1\<rparr>)\<rparr>"

text \<open>
  The same runner without an installation: \<^verbatim>\<open>cs\<close> is not on the search path, so
  \<^verbatim>\<open>exec.exec\<close> rejects before any process runs, with the error of \<^verbatim>\<open>io.which\<close>.
\<close>

definition not_found :: "string \<Rightarrow> error" where
  "not_found tool =
     Error (''Unable to locate executable file: '' @ tool
            @ ''. Please verify either the file path exists or the file can be found within ''
            @ ''a directory specified by the PATH environment variable. Also check the file ''
            @ ''mode to verify the file is executable.'')"

definition runner_without_cs :: env where
  "runner_without_cs = runner\<lparr>spawn := (\<lambda>_ tool _ _.
       \<lparr>emitted = [], outcome = Inl (not_found tool)\<rparr>)\<rparr>"

text \<open>The same runner, where the cache store is unreachable.\<close>

definition runner_store_down :: env where
  "runner_store_down = runner\<lparr>
     cacheRestore := (\<lambda>_ _ _ _. Inl (Error ''Cache service responded with 503'')),
     cacheSave := (\<lambda>_ _ _. Inl (Error ''Cache service responded with 503''))\<rparr>"

text \<open>The same runner, where \<^verbatim>\<open>gzip\<close> exits with code 1 after a line on its error stream.\<close>

definition runner_gzip_fails :: env where
  "runner_gzip_fails = runner\<lparr>spawn := (\<lambda>h tool args opts.
       if tool = ''gzip''
       then \<lparr>emitted = [Errline ''gzip: not in gzip format''], outcome = Inr 1\<rparr>
       else spawn runner h tool args opts)\<rparr>"

text \<open>The same runner, where the download of the installer fails.\<close>

definition runner_offline :: env where
  "runner_offline = runner\<lparr>downloadTool := (\<lambda>_ _ _. Inl (Error ''Unexpected HTTP response: 404''))\<rparr>"

section \<open>Properties\<close>

subsection \<open>Traces and listeners\<close>

lemmas io_defs = io_return_def io_throw_def io_bind_def io_catch_def emit_def
  core_debug_def core_info_def core_warning_def core_startGroup_def core_endGroup_def
  core_addPath_def io_mkdirP_def io_rmRF_def tc_downloadTool_def cache_restoreCache_def
  cache_saveCache_def date_now_def

lemma effects_append: "effects (xs @ ys) = effects xs @ effects ys"
  by (simp add: effects_def)

lemma effects_Nil: "effects [] = []"
  by (simp add: effects_def)

lemma effects_Cons: "effects (ev # tr) = (if is_log ev then effects tr else ev # effects tr)"
  by (simp add: effects_def)

lemma notify_shift:
  "notify ls e (l, tr) = (fst (notify ls e (l, [])), tr @ snd (notify ls e (l, [])))"
  by (cases e) (simp_all split: option.splits)

lemma fold_notify_shift:
  "fold (notify ls) es (l, tr) =
     (fst (fold (notify ls) es (l, [])), tr @ snd (fold (notify ls) es (l, [])))"
proof (induction es rule: rev_induct)
  case Nil
  show ?case by simp
next
  case (snoc e es)
  obtain l' evs where r: "fold (notify ls) es (l, []) = (l', evs)"
    by (cases "fold (notify ls) es (l, [])")
  have "fold (notify ls) es (l, tr) = (l', tr @ evs)"
    using snoc.IH r by simp
  then show ?case
    using r notify_shift [of ls e l' "tr @ evs"] notify_shift [of ls e l' evs]
    by simp
qed

lemma effects_notify:
  assumes "\<forall>g s. stdline ls = Some g \<longrightarrow> is_log (g s)"
    and "\<forall>g s. errline ls = Some g \<longrightarrow> is_log (g s)"
  shows "effects (snd (notify ls e (l, tr))) = effects tr"
  using assms by (cases e) (auto simp: effects_def split: option.splits)

lemma effects_fold_notify:
  assumes "\<forall>g s. stdline ls = Some g \<longrightarrow> is_log (g s)"
    and "\<forall>g s. errline ls = Some g \<longrightarrow> is_log (g s)"
  shows "effects (snd (fold (notify ls) es (l, tr))) = effects tr"
proof (induction es rule: rev_induct)
  case Nil
  show ?case by simp
next
  case (snoc e es)
  obtain l' evs where r: "fold (notify ls) es (l, tr) = (l', evs)"
    by (cases "fold (notify ls) es (l, tr)")
  show ?case
    using snoc.IH r effects_notify [OF assms(1) assms(2), of e l' evs] by simp
qed

lemma exec_exec_run:
  "exec_exec env tool args opts ls l0 tr =
     (case outcome (spawn env tr tool args opts) of
        Inl e \<Rightarrow> Inl e
      | Inr code \<Rightarrow>
          if code \<noteq> 0 \<and> \<not> ignoreReturnCode opts then Inl (exitCodeError env tool code)
          else Inr (code, fst (fold (notify ls) (emitted (spawn env tr tool args opts)) (l0, []))),
      tr @ [Exec tool args opts]
         @ snd (fold (notify ls) (emitted (spawn env tr tool args opts)) (l0, [])))"
proof -
  let ?p = "spawn env tr tool args opts"
  have "fold (notify ls) (emitted ?p) (l0, tr @ [Exec tool args opts]) =
          (fst (fold (notify ls) (emitted ?p) (l0, [])),
           (tr @ [Exec tool args opts]) @ snd (fold (notify ls) (emitted ?p) (l0, [])))"
    by (rule fold_notify_shift)
  then show ?thesis
    by (simp add: exec_exec_def Let_def split: sum.splits)
qed

lemma flatMap_inline:
  "flatMap (\<lambda>arg. case arg of Str s \<Rightarrow> [s] | Group g \<Rightarrow> g) args = inline_groups args"
  by (induction args rule: inline_groups.induct) (simp_all add: flatMap_def)

lemma name_qualified:
  "(case version of Some v \<Rightarrow> app @ '':'' @ value' v | None \<Rightarrow> app) = qualified_name app version"
  by (cases version) simp_all

lemmas run_defs = install_def install_try_def execute_def exec_exec_def remove_def
  io_return_def io_throw_def io_bind_def io_catch_def emit_def
  core_debug_def core_info_def core_warning_def core_startGroup_def core_endGroup_def
  core_addPath_def io_mkdirP_def io_rmRF_def tc_downloadTool_def

lemma fold_notify_debug:
  "fold (notify \<lparr>stdout = None, stdline = Some CoreDebug, errline = Some CoreDebug\<rparr>) es (l, tr) =
     (l, tr @ map CoreDebug (lines es))"
proof (induction es arbitrary: tr)
  case Nil
  show ?case by simp
next
  case (Cons e es)
  show ?case by (cases e) (simp_all add: Cons.IH)
qed

lemma fold_notify_silent:
  "fold (notify \<lparr>stdout = None, stdline = None, errline = None\<rparr>) es (l, tr) = (l, tr)"
proof (induction es)
  case Nil
  show ?case by simp
next
  case (Cons e es)
  show ?case by (cases e) (simp_all add: Cons.IH)
qed

subsection \<open>launch\<close>

lemma launch_run:
  "launch env app version args_opt tr =
     (let name = qualified_name app version;
          launchArgs = [''launch'', ''--contrib'', ''-r'', ''sonatype:snapshots'', name, ''--'']
                       @ inline_groups (case args_opt of None \<Rightarrow> [] | Some a \<Rightarrow> a);
          opts = \<lparr>silent = True, ignoreReturnCode = True\<rparr>;
          tr1 = tr @ [StartGroup (''Launching '' @ name)];
          p = spawn env tr1 ''cs'' launchArgs opts;
          evs = snd (fold (notify \<lparr>stdout = None, stdline = Some CoreInfo, errline = Some CoreError\<rparr>)
                       (emitted p) ((), []))
      in case outcome p of
           Inl e \<Rightarrow> (Inl e, tr1 @ [Exec ''cs'' launchArgs opts] @ evs)
         | Inr code \<Rightarrow>
             (if code \<noteq> 0 then Inl (Error (''Launching '' @ name @ '' failed'')) else Inr (),
              tr1 @ [Exec ''cs'' launchArgs opts] @ evs @ [EndGroup]))"
  by (simp add: launch_def Let_def io_defs exec_exec_run flatMap_inline name_qualified
           split: sum.splits)

lemma launch_effects:
  "effects (appended (launch env app version args_opt) tr) =
     [Exec ''cs''
        ([''launch'', ''--contrib'', ''-r'', ''sonatype:snapshots'', qualified_name app version, ''--'']
         @ inline_groups (case args_opt of None \<Rightarrow> [] | Some a \<Rightarrow> a))
        \<lparr>silent = True, ignoreReturnCode = True\<rparr>]"
proof -
  let ?ls = "\<lparr>stdout = None, stdline = Some CoreInfo, errline = Some CoreError\<rparr> :: unit listeners"
  have quiet: "effects (snd (fold (notify ?ls) es ((), []))) = []" for es
    using effects_fold_notify [of ?ls es "()" "[]"] by (simp add: effects_Nil)
  show ?thesis
    unfolding launch_run Let_def
    by (simp add: appended_def effects_append effects_Cons effects_Nil quiet split: sum.splits)
qed

text \<open>
  Claim C1. For every application name, optional version and argument list, \<open>launch\<close> builds
  the qualified name \<open>app\<close> (no version) or \<open>app:version\<close>. Whenever the process it starts
  exits with a code other than zero, \<open>launch\<close> throws the error
  \<^verbatim>\<open>Launching <qualified name> failed\<close>, whose message contains the qualified name; when
  the exit code is zero it returns normally.
\<close>

theorem launch_names_application:
  assumes "outcome (spawn env (tr @ [StartGroup (''Launching '' @ qualified_name app version)]) ''cs''
                      ([''launch'', ''--contrib'', ''-r'', ''sonatype:snapshots'',
                        qualified_name app version, ''--'']
                       @ inline_groups (case args_opt of None \<Rightarrow> [] | Some a \<Rightarrow> a))
                      \<lparr>silent = True, ignoreReturnCode = True\<rparr>) = Inr code"
  shows "fst (launch env app version args_opt tr) =
           (if code = 0 then Inr ()
            else Inl (Error (''Launching '' @ qualified_name app version @ '' failed'')))
         \<and> sublist (qualified_name app version)
                    (''Launching '' @ qualified_name app version @ '' failed'')"
proof -
  have "sublist (qualified_name app version)
          (''Launching '' @ (qualified_name app version @ '' failed''))"
    by (rule sublist_appendI)
  then show ?thesis
    using assms unfolding launch_run Let_def by simp
qed

theorem launch_names_application_witness:
  "fst (launch runner_exit1 ''org.scalameta:scalafmt-cli_2.13''
          (Some (NonEmptyString ''3.8.1'')) (Some [Str ''--check'', Group [''a.scala'', ''b.scala'']]) [])
     = Inl (Error ''Launching org.scalameta:scalafmt-cli_2.13:3.8.1 failed'')
   \<and> fst (launch runner ''scalafix'' None None []) = Inr ()"
  using launch_names_application
          [of runner_exit1 "[]" "''org.scalameta:scalafmt-cli_2.13''"
              "Some (NonEmptyString ''3.8.1'')"
              "Some [Str ''--check'', Group [''a.scala'', ''b.scala'']]" 1]
        launch_names_application [of runner "[]" "''scalafix''" None None 0]
  by (simp add: runner_exit1_def runner_def)

text \<open>
  Claim C5. For every mixed list of bare strings and groups of strings, the arguments
  \<open>launch\<close> passes to the tool after the separator \<^verbatim>\<open>--\<close> are the elements of the list in
  order, every group inlined in place; \<^verbatim>\<open>["a", ["b","c"], "d"]\<close> gives \<^verbatim>\<open>a b c d\<close>.
\<close>

theorem launch_inlines_groups:
  "effects (appended (launch env app version (Some args)) tr) =
     [Exec ''cs''
        ([''launch'', ''--contrib'', ''-r'', ''sonatype:snapshots'', qualified_name app version, ''--'']
         @ inline_groups args)
        \<lparr>silent = True, ignoreReturnCode = True\<rparr>]
   \<and> inline_groups [Str ''a'', Group [''b'', ''c''], Str ''d''] = [''a'', ''b'', ''c'', ''d'']"
  using launch_effects [of env app version "Some args" tr] by simp

text \<open>
  Claim C9. With the argument list omitted, \<open>launch\<close> starts the tool with exactly
  \<^verbatim>\<open>launch --contrib -r sonatype:snapshots <qualified name> --\<close> and nothing after the
  separator.
\<close>

theorem launch_default_args:
  "effects (appended (launch env app version None) tr) =
     [Exec ''cs''
        [''launch'', ''--contrib'', ''-r'', ''sonatype:snapshots'', qualified_name app version, ''--'']
        \<lparr>silent = True, ignoreReturnCode = True\<rparr>]"
  using launch_effects [of env app version None tr] by simp

subsection \<open>execute\<close>

lemma fold_notify_execute:
  "fold (notify \<lparr>stdout = Some (\<lambda>data output. output @ data), stdline = None,
                 errline = Some CoreDebug\<rparr>) es (l, tr) =
     (l @ concat (stdout_chunks es), tr @ map CoreDebug (errlines es))"
proof (induction es arbitrary: l tr)
  case Nil
  show ?case by simp
next
  case (Cons e es)
  show ?case by (cases e) (simp_all add: Cons.IH)
qed

lemma execute_run:
  "execute env tool args tr =
     (case outcome (spawn env tr tool args \<lparr>silent = True, ignoreReturnCode = True\<rparr>) of
        Inl e \<Rightarrow> Inl e
      | Inr code \<Rightarrow>
          if code \<noteq> 0
          then Inl (Error (''There was an error while executing '' @ [CHR 0x27] @ tool @ '' ''
                           @ array_join '' '' args @ [CHR 0x27]))
          else Inr (concat (stdout_chunks
                      (emitted (spawn env tr tool args \<lparr>silent = True, ignoreReturnCode = True\<rparr>)))),
      tr @ [Exec tool args \<lparr>silent = True, ignoreReturnCode = True\<rparr>]
         @ map CoreDebug (errlines
             (emitted (spawn env tr tool args \<lparr>silent = True, ignoreReturnCode = True\<rparr>))))"
  by (simp add: execute_def io_defs exec_exec_run fold_notify_execute split: sum.splits)


lemma execute_run':
  "execute env tool args tr =
     (case execute_failure tool args (spawn env tr tool args \<lparr>silent = True, ignoreReturnCode = True\<rparr>) of
        Some e \<Rightarrow> Inl e
      | None \<Rightarrow> Inr (concat (stdout_chunks
                  (emitted (spawn env tr tool args \<lparr>silent = True, ignoreReturnCode = True\<rparr>)))),
      tr @ Exec tool args \<lparr>silent = True, ignoreReturnCode = True\<rparr>
         # map CoreDebug (errlines
             (emitted (spawn env tr tool args \<lparr>silent = True, ignoreReturnCode = True\<rparr>))))"
  by (simp add: execute_run execute_failure_def split: sum.splits)



subsection \<open>restoreCache and saveCache\<close>

lemma digit_in_digits: "d < 10 \<Longrightarrow> digit d \<in> set ''0123456789''"
  unfolding digit_def by (rule nth_mem) simp

lemma digit_inj: "d < 10 \<Longrightarrow> d' < 10 \<Longrightarrow> digit d = digit d' \<Longrightarrow> d = d'"
proof -
  assume d: "d < 10" and d': "d' < 10" and eq: "digit d = digit d'"
  have "distinct ''0123456789''" by simp
  moreover have "d < length ''0123456789''" "d' < length ''0123456789''"
    using d d' by simp_all
  ultimately show "d = d'"
    using eq unfolding digit_def by (simp only: nth_eq_iff_index_eq)
qed

lemma toString_nonempty: "toString n \<noteq> []"
  by (subst toString.simps) simp

lemma toString_digits: "is_digits (toString n)"
proof (induction n rule: toString.induct)
  case (1 n)
  show ?case
  proof (cases "n < 10")
    case True
    then show ?thesis
      using digit_in_digits [of n] by (subst toString.simps) (simp add: is_digits_def)
  next
    case False
    have "n mod 10 < 10" by simp
    then have "digit (n mod 10) \<in> set ''0123456789''" by (rule digit_in_digits)
    then show ?thesis
      using False "1.IH" by (subst toString.simps) (simp add: is_digits_def)
  qed
qed

lemma toString_inj: "toString m = toString n \<Longrightarrow> m = n"
proof (induction m arbitrary: n rule: toString.induct)
  case (1 m)
  show ?case
  proof (cases "m < 10")
    case m: True
    show ?thesis
    proof (cases "n < 10")
      case True
      then show ?thesis
        using m "1.prems" digit_inj [of m n]
        by (simp add: toString.simps [of m] toString.simps [of n])
    next
      case False
      then show ?thesis
        using m "1.prems" toString_nonempty [of "n div 10"]
        by (simp add: toString.simps [of m] toString.simps [of n])
    qed
  next
    case m: False
    show ?thesis
    proof (cases "n < 10")
      case True
      then show ?thesis
        using m "1.prems" toString_nonempty [of "m div 10"]
        by (simp add: toString.simps [of m] toString.simps [of n])
    next
      case False
      have eq: "toString (m div 10) = toString (n div 10)" "digit (m mod 10) = digit (n mod 10)"
        using m False "1.prems" by (simp_all add: toString.simps [of m] toString.simps [of n])
      have "m div 10 = n div 10"
        using "1.IH" [OF m eq(1)] .
      moreover have "m mod 10 = n mod 10"
        using eq(2) by (intro digit_inj) simp_all
      ultimately show ?thesis
        by (metis div_mult_mod_eq)
    qed
  qed
qed

lemma of_char_digit: "d < 10 \<Longrightarrow> of_char (digit d) = (48 + d :: nat)"
proof -
  assume d: "d < 10"
  have "list_all (\<lambda>d. of_char (digit d) = (48 + d :: nat)) [0..<10]"
    by code_simp
  then have "\<forall>d\<in>set [0..<10]. of_char (digit d) = (48 + d :: nat)"
    by (simp only: list_all_iff)
  then show ?thesis
    using d by simp
qed

lemma decimal_value_snoc:
  "decimal_value (ds @ [c]) = 10 * decimal_value ds + (of_char c - 48)"
  by (simp add: decimal_value_def)

lemma decimal_value_toString: "decimal_value (toString n) = n"
proof (induction n rule: toString.induct)
  case (1 n)
  show ?case
  proof (cases "n < 10")
    case True
    then show ?thesis
      by (subst toString.simps) (simp add: decimal_value_def of_char_digit)
  next
    case False
    have "of_char (digit (n mod 10)) = (48 + n mod 10 :: nat)"
      by (rule of_char_digit) simp
    then show ?thesis
      using False "1.IH" by (subst toString.simps) (simp add: decimal_value_snoc)
  qed
qed

lemma hd_toString: "0 < n \<Longrightarrow> hd (toString n) \<in> set ''123456789''"
proof (induction n rule: toString.induct)
  case (1 n)
  show ?case
  proof (cases "n < 10")
    case True
    with "1.prems" consider "n = 1" | "n = 2" | "n = 3" | "n = 4" | "n = 5" | "n = 6" | "n = 7"
      | "n = 8" | "n = 9"
      by linarith
    then show ?thesis
      by cases (simp_all add: toString.simps digit_def)
  next
    case False
    then have "0 < n div 10" by simp
    then have "hd (toString (n div 10)) \<in> set ''123456789''"
      using "1.IH" False by simp
    then show ?thesis
      using False toString_nonempty [of "n div 10"]
      by (subst toString.simps) simp
  qed
qed

lemma no_leading_zero_toString: "no_leading_zero (toString n)"
proof (cases "n < 10")
  case True
  then show ?thesis
    by (subst toString.simps) (simp add: no_leading_zero_def)
next
  case False
  then have "hd (toString n) \<in> set ''123456789''"
    by (intro hd_toString) simp
  then show ?thesis
    using toString_nonempty [of n]
    by (cases "toString n") (simp_all add: no_leading_zero_def)
qed

lemma restoreCache_run:
  "restoreCache env hash tr =
     (Inr (),
      tr @ [StartGroup ''Trying to restore Coursier's cache...'',
            RestoreCache [join env [homedir env, ''.cache'', ''coursier'', ''v1'']]
              (''coursier-cache-'' @ hash @ ''-''
                 @ toString (now env (tr @ [StartGroup ''Trying to restore Coursier's cache...''])))
              [''coursier-cache-'' @ hash, ''coursier-cache-'']]
         @ (case cacheRestore env (tr @ [StartGroup ''Trying to restore Coursier's cache...''])
                   [join env [homedir env, ''.cache'', ''coursier'', ''v1'']]
                   (''coursier-cache-'' @ hash @ ''-''
                      @ toString (now env (tr @ [StartGroup ''Trying to restore Coursier's cache...''])))
                   [''coursier-cache-'' @ hash, ''coursier-cache-''] of
              Inl e \<Rightarrow> [CoreDebug (message e), CoreWarning ''Unable to restore Coursier's cache'',
                        EndGroup]
            | Inr cacheHit \<Rightarrow>
                [CoreInfo (if truthy cacheHit then ''Coursier cache was restored''
                           else ''Coursier cache wasn't found''), EndGroup]))"
  by (simp add: restoreCache_def io_defs split: sum.splits)

lemma saveCache_run:
  "saveCache env hash tr =
     (Inr (),
      tr @ [StartGroup ''Saving Coursier's cache...'',
            SaveCache [join env [homedir env, ''.cache'', ''coursier'', ''v1'']]
              (''coursier-cache-'' @ hash @ ''-''
                 @ toString (now env (tr @ [StartGroup ''Saving Coursier's cache...''])))]
         @ (case cacheSave env (tr @ [StartGroup ''Saving Coursier's cache...''])
                   [join env [homedir env, ''.cache'', ''coursier'', ''v1'']]
                   (''coursier-cache-'' @ hash @ ''-''
                      @ toString (now env (tr @ [StartGroup ''Saving Coursier's cache...'']))) of
              Inl e \<Rightarrow> [CoreDebug (message e), CoreWarning ''Unable to save Coursier's cache'',
                        EndGroup]
            | Inr _ \<Rightarrow> [CoreInfo ''Coursier cache has been saved'', EndGroup]))"
  by (simp add: saveCache_def io_defs split: sum.splits)

lemma toString_1700000000000: "toString 1700000000000 = ''1700000000000''"
  by (simp add: toString.simps digit_def)

text \<open>
  Claim C2. For every hash, \<open>restoreCache\<close> and \<open>saveCache\<close> return normally whatever the
  cache store does. When the store rejects with an error, the message of that error is
  logged at debug level, a warning follows, the log group is closed, and nothing is
  thrown.
\<close>

theorem cache_operations_never_throw:
  fixes env :: env and hash :: string and tr :: trace
  defines "paths \<equiv> [join env [homedir env, ''.cache'', ''coursier'', ''v1'']]"
    and "tr_restore \<equiv> tr @ [StartGroup ''Trying to restore Coursier's cache...'']"
    and "tr_save \<equiv> tr @ [StartGroup ''Saving Coursier's cache...'']"
  defines "key_restore \<equiv> ''coursier-cache-'' @ hash @ ''-'' @ toString (now env tr_restore)"
    and "key_save \<equiv> ''coursier-cache-'' @ hash @ ''-'' @ toString (now env tr_save)"
  shows "fst (restoreCache env hash tr) = Inr ()
       \<and> fst (saveCache env hash tr) = Inr ()
       \<and> (\<forall>e. cacheRestore env tr_restore paths key_restore
                  [''coursier-cache-'' @ hash, ''coursier-cache-''] = Inl e \<longrightarrow>
              appended (restoreCache env hash) tr =
                [StartGroup ''Trying to restore Coursier's cache...'',
                 RestoreCache paths key_restore [''coursier-cache-'' @ hash, ''coursier-cache-''],
                 CoreDebug (message e),
                 CoreWarning ''Unable to restore Coursier's cache'',
                 EndGroup])
       \<and> (\<forall>e. cacheSave env tr_save paths key_save = Inl e \<longrightarrow>
              appended (saveCache env hash) tr =
                [StartGroup ''Saving Coursier's cache...'',
                 SaveCache paths key_save,
                 CoreDebug (message e),
                 CoreWarning ''Unable to save Coursier's cache'',
                 EndGroup])"
  unfolding paths_def tr_restore_def tr_save_def key_restore_def key_save_def
  by (simp add: restoreCache_run saveCache_run appended_def)

theorem cache_operations_never_throw_witness:
  "fst (restoreCache runner_store_down ''abc'' []) = Inr ()
   \<and> fst (saveCache runner_store_down ''abc'' []) = Inr ()
   \<and> appended (restoreCache runner_store_down ''abc'') [] =
       [StartGroup ''Trying to restore Coursier's cache...'',
        RestoreCache [''/home/runner/.cache/coursier/v1''] ''coursier-cache-abc-1700000000000''
          [''coursier-cache-abc'', ''coursier-cache-''],
        CoreDebug ''Cache service responded with 503'',
        CoreWarning ''Unable to restore Coursier's cache'',
        EndGroup]
   \<and> appended (saveCache runner_store_down ''abc'') [] =
       [StartGroup ''Saving Coursier's cache...'',
        SaveCache [''/home/runner/.cache/coursier/v1''] ''coursier-cache-abc-1700000000000'',
        CoreDebug ''Cache service responded with 503'',
        CoreWarning ''Unable to save Coursier's cache'',
        EndGroup]"
  using cache_operations_never_throw [of runner_store_down "''abc''" "[]"]
  by (simp add: runner_store_down_def runner_def toString_1700000000000)

text \<open>
  Claim C3. For every hash \<open>h\<close>, the only call \<open>restoreCache\<close> makes to the cache store has
  the primary key \<^verbatim>\<open>coursier-cache-<h>-<digits>\<close>, where the digits are the decimal
  numeral of the clock reading taken in that invocation, and the two fallback keys
  \<^verbatim>\<open>coursier-cache-<h>\<close> and \<^verbatim>\<open>coursier-cache-\<close>, in that order; the only call
  \<open>saveCache\<close> makes has a primary key built in the same way from its own clock reading.
  The numeral of a number is a non-empty string of digits without superfluous zeros
  that denotes that number.
\<close>

theorem cache_key_construction:
  fixes env :: env and h :: string and tr :: trace
  defines "restored_at \<equiv> now env (tr @ [StartGroup ''Trying to restore Coursier's cache...''])"
    and "saved_at \<equiv> now env (tr @ [StartGroup ''Saving Coursier's cache...''])"
  shows "effects (appended (restoreCache env h) tr) =
           [RestoreCache [join env [homedir env, ''.cache'', ''coursier'', ''v1'']]
              (''coursier-cache-'' @ h @ ''-'' @ toString restored_at)
              [''coursier-cache-'' @ h, ''coursier-cache-'']]
       \<and> effects (appended (saveCache env h) tr) =
           [SaveCache [join env [homedir env, ''.cache'', ''coursier'', ''v1'']]
              (''coursier-cache-'' @ h @ ''-'' @ toString saved_at)]
       \<and> (\<forall>t. is_digits (toString t) \<and> no_leading_zero (toString t)
                \<and> decimal_value (toString t) = t)"
proof -
  have "effects (appended (restoreCache env h) tr) =
           [RestoreCache [join env [homedir env, ''.cache'', ''coursier'', ''v1'']]
              (''coursier-cache-'' @ h @ ''-'' @ toString restored_at)
              [''coursier-cache-'' @ h, ''coursier-cache-'']]"
    unfolding restored_at_def
    by (simp add: restoreCache_run appended_def effects_def split: sum.splits)
  moreover have "effects (appended (saveCache env h) tr) =
           [SaveCache [join env [homedir env, ''.cache'', ''coursier'', ''v1'']]
              (''coursier-cache-'' @ h @ ''-'' @ toString saved_at)]"
    unfolding saved_at_def
    by (simp add: saveCache_run appended_def effects_def split: sum.splits)
  ultimately show ?thesis
    by (simp add: toString_digits no_leading_zero_toString decimal_value_toString)
qed

theorem cache_key_construction_witness:
  "effects (appended (restoreCache runner ''abc'') []) =
     [RestoreCache [''/home/runner/.cache/coursier/v1''] ''coursier-cache-abc-1700000000000''
        [''coursier-cache-abc'', ''coursier-cache-'']]
   \<and> effects (appended (saveCache runner ''abc'') []) =
     [SaveCache [''/home/runner/.cache/coursier/v1''] ''coursier-cache-abc-1700000000000'']
   \<and> is_digits ''1700000000000'' \<and> no_leading_zero ''1700000000000''
   \<and> decimal_value ''1700000000000'' = 1700000000000"
proof -
  have "is_digits (toString 1700000000000) \<and> no_leading_zero (toString 1700000000000)
        \<and> decimal_value (toString 1700000000000) = 1700000000000"
    using cache_key_construction [of runner "''abc''" "[]"] by blast
  then show ?thesis
    using cache_key_construction [of runner "''abc''" "[]"]
    by (simp add: runner_def toString_1700000000000)
qed

text \<open>
  Claim C8. The primary key \<open>restoreCache\<close> and \<open>saveCache\<close> hand to the cache store embeds
  the reading of the clock: for one hash, two invocations hand over the same primary
  key exactly when their clock readings are equal. So the key of a save equals the
  primary key of a later restore only when the two timestamps coincide, while both
  fallback keys of the restore are prefixes of the saved key.
\<close>

theorem primary_keys_follow_the_clock:
  fixes env env' :: env and h :: string and tr tr' :: trace
  defines "save_time \<equiv> now env (tr @ [StartGroup ''Saving Coursier's cache...''])"
    and "save_time' \<equiv> now env' (tr' @ [StartGroup ''Saving Coursier's cache...''])"
    and "restore_time \<equiv> now env (tr @ [StartGroup ''Trying to restore Coursier's cache...''])"
    and "restore_time' \<equiv> now env' (tr' @ [StartGroup ''Trying to restore Coursier's cache...''])"
  shows "\<exists>saved saved' wanted wanted'.
           primary_keys (appended (saveCache env h) tr) = [saved]
         \<and> primary_keys (appended (saveCache env' h) tr') = [saved']
         \<and> primary_keys (appended (restoreCache env h) tr) = [wanted]
         \<and> primary_keys (appended (restoreCache env' h) tr') = [wanted']
         \<and> (saved = saved' \<longleftrightarrow> save_time = save_time')
         \<and> (wanted = wanted' \<longleftrightarrow> restore_time = restore_time')
         \<and> (saved = wanted' \<longleftrightarrow> save_time = restore_time')
         \<and> fallback_keys (appended (restoreCache env' h) tr') =
             [''coursier-cache-'' @ h, ''coursier-cache-'']
         \<and> prefix (''coursier-cache-'' @ h) saved
         \<and> prefix ''coursier-cache-'' saved"
proof -
  have inj: "(toString a = toString b) = (a = b)" for a b
    using toString_inj by blast
  have p: "prefix (''coursier-cache-'' @ h) ((''coursier-cache-'' @ h) @ ''-'' @ toString save_time)"
          "prefix ''coursier-cache-'' (''coursier-cache-'' @ h @ ''-'' @ toString save_time)"
    by (rule prefixI, simp)+
  have keys:
    "primary_keys (appended (saveCache e h) t) =
       [''coursier-cache-'' @ h @ ''-'' @ toString (now e (t @ [StartGroup ''Saving Coursier's cache...'']))]"
    "primary_keys (appended (restoreCache e h) t) =
       [''coursier-cache-'' @ h @ ''-''
          @ toString (now e (t @ [StartGroup ''Trying to restore Coursier's cache...'']))]"
    "fallback_keys (appended (restoreCache e h) t) = [''coursier-cache-'' @ h, ''coursier-cache-'']"
    for e t
    by (simp_all add: saveCache_run restoreCache_run appended_def split: sum.splits)
  show ?thesis
    unfolding keys using p
    by (simp add: inj save_time_def save_time'_def restore_time_def restore_time'_def)
qed

subsection \<open>install\<close>

lemma effects_map_CoreDebug: "effects (map CoreDebug xs) = []"
  by (induction xs) (simp_all add: effects_def)

lemma io_bind_step:
  assumes "io_bind m f tr = (Inr y, tr'')"
    and "\<And>x tr'. m tr = (Inr x, tr') \<Longrightarrow> \<exists>evs. tr' = tr @ evs \<and> effects evs = A"
  obtains x evs where "f x (tr @ evs) = (Inr y, tr'')" and "effects evs = A"
proof -
  obtain x tr' where m: "m tr = (Inr x, tr')" and f: "f x tr' = (Inr y, tr'')"
    using assms(1) by (auto simp: io_bind_def split: prod.splits sum.splits)
  obtain evs where "tr' = tr @ evs" "effects evs = A"
    using assms(2) [OF m] by blast
  then show thesis
    using that m f by simp
qed

lemma core_info_effects:
  "core_info s tr = (Inr x, tr') \<Longrightarrow> \<exists>evs. tr' = tr @ evs \<and> effects evs = []"
  by (auto simp: core_info_def emit_def effects_def)

lemma core_addPath_effects:
  "core_addPath p tr = (Inr x, tr') \<Longrightarrow> \<exists>evs. tr' = tr @ evs \<and> effects evs = [AddPath p]"
  by (auto simp: core_addPath_def emit_def effects_def)

lemma io_mkdirP_effects:
  "io_mkdirP env p tr = (Inr x, tr') \<Longrightarrow> \<exists>evs. tr' = tr @ evs \<and> effects evs = [MkdirP p]"
  by (auto simp: io_mkdirP_def effects_def)

lemma tc_downloadTool_effects:
  "tc_downloadTool env url dest tr = (Inr x, tr') \<Longrightarrow>
     \<exists>evs. tr' = tr @ evs \<and> effects evs = [DownloadTool url dest]"
  by (auto simp: tc_downloadTool_def effects_def)

lemma exec_exec_effects:
  assumes "exec_exec env tool args opts ls l0 tr = (r, tr')"
    and "\<forall>g s. stdline ls = Some g \<longrightarrow> is_log (g s)"
    and "\<forall>g s. errline ls = Some g \<longrightarrow> is_log (g s)"
  shows "\<exists>evs. tr' = tr @ evs \<and> effects evs = [Exec tool args opts]"
proof -
  let ?evs = "snd (fold (notify ls) (emitted (spawn env tr tool args opts)) (l0, []))"
  have "tr' = tr @ Exec tool args opts # ?evs"
    using assms(1) by (simp add: exec_exec_run)
  moreover have "effects ?evs = []"
    using effects_fold_notify [OF assms(2) assms(3), of "emitted (spawn env tr tool args opts)" l0 "[]"]
    by (simp add: effects_Nil)
  ultimately show ?thesis
    by (intro exI [of _ "Exec tool args opts # ?evs"]) (simp add: effects_Cons)
qed

lemma execute_effects:
  "execute env tool args tr = (r, tr') \<Longrightarrow>
     \<exists>evs. tr' = tr @ evs \<and> effects evs = [Exec tool args \<lparr>silent = True, ignoreReturnCode = True\<rparr>]"
  by (auto simp: execute_run effects_Cons effects_map_CoreDebug)

lemma install_run:
  "install env tr =
     (case install_try env tr of
        (Inl e, tr') \<Rightarrow> (Inl (Error ''Unable to install coursier or managed tools''),
                         tr' @ [CoreDebug (message e)])
      | (Inr u, tr') \<Rightarrow> (Inr u, tr'))"
  by (simp add: install_def io_defs split: prod.splits sum.splits)

lemma exec_exec_strict:
  "exec_exec env tool args \<lparr>silent = True, ignoreReturnCode = False\<rparr> ls l0 tr =
     (case strict_failure env tool (spawn env tr tool args \<lparr>silent = True, ignoreReturnCode = False\<rparr>) of
        Some e \<Rightarrow> Inl e
      | None \<Rightarrow> Inr (0, fst (fold (notify ls)
                  (emitted (spawn env tr tool args \<lparr>silent = True, ignoreReturnCode = False\<rparr>)) (l0, []))),
      tr @ Exec tool args \<lparr>silent = True, ignoreReturnCode = False\<rparr>
         # snd (fold (notify ls)
             (emitted (spawn env tr tool args \<lparr>silent = True, ignoreReturnCode = False\<rparr>)) (l0, [])))"
  by (simp add: exec_exec_run strict_failure_def split: sum.splits)

lemma catch_bind:
  "io_catch (io_bind m f) k tr =
     (case m tr of (Inl e, tr') \<Rightarrow> k e tr' | (Inr x, tr') \<Rightarrow> io_catch (f x) k tr')"
  by (simp add: io_catch_def io_bind_def split: prod.splits sum.splits)

lemma catch_bind_debug:
  "io_catch (io_bind (core_debug s) f) k tr = io_catch (f ()) k (tr @ [CoreDebug s])"
  by (simp add: catch_bind core_debug_def emit_def)

lemma catch_bind_info:
  "io_catch (io_bind (core_info s) f) k tr = io_catch (f ()) k (tr @ [CoreInfo s])"
  by (simp add: catch_bind core_info_def emit_def)

lemma catch_bind_addPath:
  "io_catch (io_bind (core_addPath p) f) k tr = io_catch (f ()) k (tr @ [AddPath p])"
  by (simp add: catch_bind core_addPath_def emit_def)

lemma catch_info:
  "io_catch (core_info s) k tr = (Inr (), tr @ [CoreInfo s])"
  by (simp add: io_catch_def core_info_def emit_def)

lemma catch_bind_mkdirP:
  "io_catch (io_bind (io_mkdirP env p) f) k tr =
     (case mkdirP env tr p of
        Inl e \<Rightarrow> k e (tr @ [MkdirP p])
      | Inr x \<Rightarrow> io_catch (f x) k (tr @ [MkdirP p]))"
  by (simp add: catch_bind io_mkdirP_def split: sum.splits)

lemma catch_bind_downloadTool:
  "io_catch (io_bind (tc_downloadTool env url dest) f) k tr =
     (case downloadTool env tr url dest of
        Inl e \<Rightarrow> k e (tr @ [DownloadTool url dest])
      | Inr x \<Rightarrow> io_catch (f x) k (tr @ [DownloadTool url dest]))"
  by (simp add: catch_bind tc_downloadTool_def split: sum.splits)

lemma catch_bind_strict_silent:
  "io_catch (io_bind (exec_exec env tool args \<lparr>silent = True, ignoreReturnCode = False\<rparr>
                        \<lparr>stdout = None, stdline = None, errline = None\<rparr> ()) f) k tr =
     (case strict_failure env tool
             (spawn env tr tool args \<lparr>silent = True, ignoreReturnCode = False\<rparr>) of
        Some e \<Rightarrow> k e (tr @ [Exec tool args \<lparr>silent = True, ignoreReturnCode = False\<rparr>])
      | None \<Rightarrow> io_catch (f (0, ())) k
                 (tr @ [Exec tool args \<lparr>silent = True, ignoreReturnCode = False\<rparr>]))"
  by (simp add: catch_bind exec_exec_strict fold_notify_silent split: option.splits)

lemma catch_bind_strict_debug:
  "io_catch (io_bind (exec_exec env tool args \<lparr>silent = True, ignoreReturnCode = False\<rparr>
                        \<lparr>stdout = None, stdline = Some CoreDebug, errline = Some CoreDebug\<rparr> ()) f)
       k tr =
     (case strict_failure env tool
             (spawn env tr tool args \<lparr>silent = True, ignoreReturnCode = False\<rparr>) of
        Some e \<Rightarrow> k e (tr @ Exec tool args \<lparr>silent = True, ignoreReturnCode = False\<rparr>
                            # map CoreDebug (lines (emitted
                                (spawn env tr tool args \<lparr>silent = True, ignoreReturnCode = False\<rparr>))))
      | None \<Rightarrow> io_catch (f (0, ())) k
                 (tr @ Exec tool args \<lparr>silent = True, ignoreReturnCode = False\<rparr>
                    # map CoreDebug (lines (emitted
                        (spawn env tr tool args \<lparr>silent = True, ignoreReturnCode = False\<rparr>)))))"
  by (simp add: catch_bind exec_exec_strict fold_notify_debug split: option.splits)

lemma catch_bind_execute:
  "io_catch (io_bind (execute env tool args) f) k tr =
     (case execute_failure tool args
             (spawn env tr tool args \<lparr>silent = True, ignoreReturnCode = True\<rparr>) of
        Some e \<Rightarrow> k e (tr @ Exec tool args \<lparr>silent = True, ignoreReturnCode = True\<rparr>
                            # map CoreDebug (errlines (emitted
                                (spawn env tr tool args \<lparr>silent = True, ignoreReturnCode = True\<rparr>))))
      | None \<Rightarrow> io_catch (f (concat (stdout_chunks (emitted
                    (spawn env tr tool args \<lparr>silent = True, ignoreReturnCode = True\<rparr>))))) k
                 (tr @ Exec tool args \<lparr>silent = True, ignoreReturnCode = True\<rparr>
                    # map CoreDebug (errlines (emitted
                        (spawn env tr tool args \<lparr>silent = True, ignoreReturnCode = True\<rparr>)))))"
  by (simp add: catch_bind execute_run' split: option.splits)

lemma install_handler:
  "io_bind (core_debug (message e)) (\<lambda>_. io_throw E) h = (Inl E, h @ [CoreDebug (message e)])"
  by (simp add: io_bind_def core_debug_def emit_def io_throw_def)

lemmas install_steps = catch_bind_debug catch_bind_info catch_bind_addPath catch_info
  catch_bind_mkdirP catch_bind_downloadTool catch_bind_strict_silent catch_bind_strict_debug
  catch_bind_execute install_handler

lemma io_bind_core_debug: "io_bind (core_debug s) f tr = f () (tr @ [CoreDebug s])"
  by (simp add: io_bind_def core_debug_def emit_def)

lemma io_bind_mkdirP_Inr:
  assumes "io_bind (io_mkdirP env p) f tr = (Inr y, T)"
  obtains "mkdirP env tr p = Inr ()" and "f () (tr @ [MkdirP p]) = (Inr y, T)"
  using assms by (auto simp: io_bind_def io_mkdirP_def split: sum.splits)

lemma io_bind_downloadTool_Inr:
  assumes "io_bind (tc_downloadTool env url dest) f tr = (Inr y, T)"
  obtains zip' where "downloadTool env tr url dest = Inr zip'"
    and "f zip' (tr @ [DownloadTool url dest]) = (Inr y, T)"
  using assms by (auto simp: io_bind_def tc_downloadTool_def split: sum.splits)

lemma install_try_success:
  assumes "install_try env tr = (Inr u, T)"
  shows "\<exists>zip' evs.
     downloadTool env
       (tr @ [CoreDebug (''Installing coursier from '' @ getInput env ''coursier-cli-url''),
              MkdirP (join env [homedir env, ''bin''])])
       (getInput env ''coursier-cli-url'') (join env [join env [homedir env, ''bin''], ''cs.gz''])
       = Inr zip'
   \<and> T = tr @ evs \<and> effects evs =
     [MkdirP (join env [homedir env, ''bin'']),
      DownloadTool (getInput env ''coursier-cli-url'')
        (join env [join env [homedir env, ''bin''], ''cs.gz'']),
      Exec ''gzip'' [''-d'', zip'] \<lparr>silent = True, ignoreReturnCode = False\<rparr>,
      Exec ''chmod'' [''+x'', join env [join env [homedir env, ''bin''], ''cs'']]
        \<lparr>silent = True, ignoreReturnCode = False\<rparr>,
      AddPath (join env [homedir env, ''bin'']),
      Exec ''cs'' [''setup'', ''--yes'', ''--jvm'', ''adoptium:17'', ''--apps'',
                   ''scalafmt,scalafix'', ''--install-dir'', join env [homedir env, ''bin'']]
        \<lparr>silent = True, ignoreReturnCode = False\<rparr>,
      Exec ''cs'' [''version''] \<lparr>silent = True, ignoreReturnCode = True\<rparr>,
      Exec ''scalafmt'' [''--version''] \<lparr>silent = True, ignoreReturnCode = True\<rparr>,
      Exec ''scalafix'' [''--version''] \<lparr>silent = True, ignoreReturnCode = True\<rparr>]"
  using assms unfolding install_try_def Let_def io_bind_core_debug
  apply -
  apply (erule io_bind_mkdirP_Inr)
  apply (erule io_bind_downloadTool_Inr)
  apply (erule io_bind_step, erule exec_exec_effects, simp, simp)
  apply (erule io_bind_step, erule exec_exec_effects, simp, simp)
  apply (erule io_bind_step, erule core_addPath_effects)
  apply (erule io_bind_step, erule exec_exec_effects, simp, simp)
  apply (erule io_bind_step, erule execute_effects)
  apply (erule io_bind_step, erule core_info_effects)
  apply (erule io_bind_step, erule execute_effects)
  apply (erule io_bind_step, erule core_info_effects)
  apply (erule io_bind_step, erule execute_effects)
  apply (drule core_info_effects)
  apply (clarsimp simp: effects_append effects_Cons effects_Nil)
  done

lemma toString_1: "toString (Suc 0) = ''1''"
  by (simp add: toString.simps digit_def)

text \<open>
  Claim C4. \<open>install\<close> runs its steps in order: create the binary directory, download
  the installer into it, unpack it, make it executable, add the directory to the search
  path, run the setup that installs the two auxiliary tools into that directory, ask
  each of the three executables for its version. The first step that fails (a
  rejection, or for a process an exit code other than zero) ends the run: the message of
  its error is logged at debug level, as the only entry added after the failure, and
  \<open>install\<close> throws the one error \<^verbatim>\<open>Unable to install coursier or managed tools\<close>, whatever
  the failure was. When no step fails \<open>install\<close> returns normally, having performed all
  of them, the unpacking on the file the download returned. There is no third outcome.
\<close>

theorem install_outcomes:
  fixes env :: env and tr :: trace
  defines "url \<equiv> getInput env ''coursier-cli-url''"
    and "binPath \<equiv> join env [homedir env, ''bin'']"
    and "strict \<equiv> \<lparr>silent = True, ignoreReturnCode = False\<rparr>"
    and "lenient \<equiv> \<lparr>silent = True, ignoreReturnCode = True\<rparr>"
    and "failed \<equiv> (\<lambda>e h. (Inl (Error ''Unable to install coursier or managed tools'') :: error + unit,
                           h @ [CoreDebug (message e)]))"
  defines "setup_args \<equiv> [''setup'', ''--yes'', ''--jvm'', ''adoptium:17'', ''--apps'',
                          ''scalafmt,scalafix'', ''--install-dir'', binPath]"
    and "h0 \<equiv> tr @ [CoreDebug (''Installing coursier from '' @ url)]"
  defines "h1 \<equiv> h0 @ [MkdirP binPath]"
  defines "h2 \<equiv> h1 @ [DownloadTool url (join env [binPath, ''cs.gz''])]"
  shows "(install env tr =
    (case mkdirP env h0 binPath of
       Inl e \<Rightarrow> failed e h1
     | Inr _ \<Rightarrow>
    (case downloadTool env h1 url (join env [binPath, ''cs.gz'']) of
       Inl e \<Rightarrow> failed e h2
     | Inr zip' \<Rightarrow>
    (let gzip = spawn env h2 ''gzip'' [''-d'', zip'] strict;
         h3 = h2 @ [Exec ''gzip'' [''-d'', zip'] strict]
     in case strict_failure env ''gzip'' gzip of
       Some e \<Rightarrow> failed e h3
     | None \<Rightarrow>
    (let chmod = spawn env h3 ''chmod'' [''+x'', join env [binPath, ''cs'']] strict;
         h4 = h3 @ [Exec ''chmod'' [''+x'', join env [binPath, ''cs'']] strict]
     in case strict_failure env ''chmod'' chmod of
       Some e \<Rightarrow> failed e h4
     | None \<Rightarrow>
    (let setup = spawn env (h4 @ [AddPath binPath]) ''cs'' setup_args strict;
         h5 = h4 @ [AddPath binPath, Exec ''cs'' setup_args strict]
                 @ map CoreDebug (lines (emitted setup))
     in case strict_failure env ''cs'' setup of
       Some e \<Rightarrow> failed e h5
     | None \<Rightarrow>
    (let cs_version = spawn env h5 ''cs'' [''version''] lenient;
         h6 = h5 @ [Exec ''cs'' [''version''] lenient]
                 @ map CoreDebug (errlines (emitted cs_version))
     in case execute_failure ''cs'' [''version''] cs_version of
       Some e \<Rightarrow> failed e h6
     | None \<Rightarrow>
    (let h7 = h6 @ [CoreInfo (check_mark @ '' Coursier installed, version: ''
                               @ trim env (concat (stdout_chunks (emitted cs_version))))];
         scalafmt_version = spawn env h7 ''scalafmt'' [''--version''] lenient;
         h8 = h7 @ [Exec ''scalafmt'' [''--version''] lenient]
                 @ map CoreDebug (errlines (emitted scalafmt_version))
     in case execute_failure ''scalafmt'' [''--version''] scalafmt_version of
       Some e \<Rightarrow> failed e h8
     | None \<Rightarrow>
    (let h9 = h8 @ [CoreInfo (check_mark @ '' Scalafmt installed, version: ''
                               @ trim env (replace_scalafmt
                                             (concat (stdout_chunks (emitted scalafmt_version)))))];
         scalafix_version = spawn env h9 ''scalafix'' [''--version''] lenient;
         h10 = h9 @ [Exec ''scalafix'' [''--version''] lenient]
                  @ map CoreDebug (errlines (emitted scalafix_version))
     in case execute_failure ''scalafix'' [''--version''] scalafix_version of
       Some e \<Rightarrow> failed e h10
     | None \<Rightarrow>
         (Inr (), h10 @ [CoreInfo (check_mark @ '' Scalafix installed, version: ''
                                    @ trim env (concat (stdout_chunks (emitted scalafix_version))))])
    )))))))))
     \<and> (fst (install env tr) = Inr ()
          \<or> fst (install env tr) = Inl (Error ''Unable to install coursier or managed tools''))
     \<and> (fst (install env tr) = Inr () \<longrightarrow>
          (\<exists>zip'. downloadTool env h1 url (join env [binPath, ''cs.gz'']) = Inr zip'
               \<and> effects (appended (install env) tr) =
                   [MkdirP binPath,
                    DownloadTool url (join env [binPath, ''cs.gz'']),
                    Exec ''gzip'' [''-d'', zip'] strict,
                    Exec ''chmod'' [''+x'', join env [binPath, ''cs'']] strict,
                    AddPath binPath,
                    Exec ''cs'' setup_args strict,
                    Exec ''cs'' [''version''] lenient,
                    Exec ''scalafmt'' [''--version''] lenient,
                    Exec ''scalafix'' [''--version''] lenient]))"
    (is "?equation \<and> ?dichotomy \<and> ?success")
proof (intro conjI)
  show ?equation
    unfolding url_def binPath_def strict_def lenient_def failed_def setup_args_def h0_def h1_def
      h2_def install_def install_try_def Let_def
    by (simp add: install_steps cong: sum.case_cong option.case_cong)
next
  obtain r T where run: "install_try env tr = (r, T)"
    by (cases "install_try env tr")
  show ?dichotomy
    using run by (cases r) (simp_all add: install_run)
  show ?success
  proof
    assume ok: "fst (install env tr) = Inr ()"
    then obtain u where r: "r = Inr u"
      using run by (cases r) (simp_all add: install_run)
    then have same: "install env tr = (Inr u, T)"
      using run by (simp add: install_run)
    from install_try_success [OF run [unfolded r]] same
    show "\<exists>zip'. downloadTool env h1 url (join env [binPath, ''cs.gz'']) = Inr zip'
               \<and> effects (appended (install env) tr) =
                   [MkdirP binPath,
                    DownloadTool url (join env [binPath, ''cs.gz'']),
                    Exec ''gzip'' [''-d'', zip'] strict,
                    Exec ''chmod'' [''+x'', join env [binPath, ''cs'']] strict,
                    AddPath binPath,
                    Exec ''cs'' setup_args strict,
                    Exec ''cs'' [''version''] lenient,
                    Exec ''scalafmt'' [''--version''] lenient,
                    Exec ''scalafix'' [''--version''] lenient]"
      unfolding url_def binPath_def strict_def lenient_def setup_args_def h0_def h1_def
      by (auto simp: appended_def)
  qed
qed

theorem install_outcomes_witness:
  "fst (install runner []) = Inr ()
   \<and> effects (appended (install runner) []) =
       [MkdirP ''/home/runner/bin'',
        DownloadTool ''https://example.org/cs.gz'' ''/home/runner/bin/cs.gz'',
        Exec ''gzip'' [''-d'', ''/home/runner/bin/cs.gz''] \<lparr>silent = True, ignoreReturnCode = False\<rparr>,
        Exec ''chmod'' [''+x'', ''/home/runner/bin/cs''] \<lparr>silent = True, ignoreReturnCode = False\<rparr>,
        AddPath ''/home/runner/bin'',
        Exec ''cs'' [''setup'', ''--yes'', ''--jvm'', ''adoptium:17'', ''--apps'',
                     ''scalafmt,scalafix'', ''--install-dir'', ''/home/runner/bin'']
          \<lparr>silent = True, ignoreReturnCode = False\<rparr>,
        Exec ''cs'' [''version''] \<lparr>silent = True, ignoreReturnCode = True\<rparr>,
        Exec ''scalafmt'' [''--version''] \<lparr>silent = True, ignoreReturnCode = True\<rparr>,
        Exec ''scalafix'' [''--version''] \<lparr>silent = True, ignoreReturnCode = True\<rparr>]
   \<and> install runner_offline [] =
       (Inl (Error ''Unable to install coursier or managed tools''),
        [CoreDebug ''Installing coursier from https://example.org/cs.gz'',
         MkdirP ''/home/runner/bin'',
         DownloadTool ''https://example.org/cs.gz'' ''/home/runner/bin/cs.gz'',
         CoreDebug ''Unexpected HTTP response: 404''])
   \<and> install runner_gzip_fails [] =
       (Inl (Error ''Unable to install coursier or managed tools''),
        [CoreDebug ''Installing coursier from https://example.org/cs.gz'',
         MkdirP ''/home/runner/bin'',
         DownloadTool ''https://example.org/cs.gz'' ''/home/runner/bin/cs.gz'',
         Exec ''gzip'' [''-d'', ''/home/runner/bin/cs.gz''] \<lparr>silent = True, ignoreReturnCode = False\<rparr>,
         CoreDebug (''The process '' @ [CHR 0x27] @ ''/usr/bin/gzip'' @ [CHR 0x27]
                     @ '' failed with exit code 1'')])"
proof -
  have ok: "fst (install runner []) = Inr ()"
    using install_outcomes [of runner "[]"]
    by (simp add: runner_def Let_def strict_failure_def execute_failure_def)
  have "downloadTool runner
          [CoreDebug (''Installing coursier from '' @ getInput runner ''coursier-cli-url''),
           MkdirP (join runner [homedir runner, ''bin''])]
          (getInput runner ''coursier-cli-url'')
          (join runner [join runner [homedir runner, ''bin''], ''cs.gz''])
        = Inr ''/home/runner/bin/cs.gz''"
    by (simp add: runner_def)
  then have eff: "effects (appended (install runner) []) =
       [MkdirP ''/home/runner/bin'',
        DownloadTool ''https://example.org/cs.gz'' ''/home/runner/bin/cs.gz'',
        Exec ''gzip'' [''-d'', ''/home/runner/bin/cs.gz''] \<lparr>silent = True, ignoreReturnCode = False\<rparr>,
        Exec ''chmod'' [''+x'', ''/home/runner/bin/cs''] \<lparr>silent = True, ignoreReturnCode = False\<rparr>,
        AddPath ''/home/runner/bin'',
        Exec ''cs'' [''setup'', ''--yes'', ''--jvm'', ''adoptium:17'', ''--apps'',
                     ''scalafmt,scalafix'', ''--install-dir'', ''/home/runner/bin'']
          \<lparr>silent = True, ignoreReturnCode = False\<rparr>,
        Exec ''cs'' [''version''] \<lparr>silent = True, ignoreReturnCode = True\<rparr>,
        Exec ''scalafmt'' [''--version''] \<lparr>silent = True, ignoreReturnCode = True\<rparr>,
        Exec ''scalafix'' [''--version''] \<lparr>silent = True, ignoreReturnCode = True\<rparr>]"
    using ok install_outcomes [of runner "[]"] by (auto simp: runner_def)
  have off: "install runner_offline [] =
       (Inl (Error ''Unable to install coursier or managed tools''),
        [CoreDebug ''Installing coursier from https://example.org/cs.gz'',
         MkdirP ''/home/runner/bin'',
         DownloadTool ''https://example.org/cs.gz'' ''/home/runner/bin/cs.gz'',
         CoreDebug ''Unexpected HTTP response: 404''])"
    using install_outcomes [of runner_offline "[]"]
    by (simp add: runner_offline_def runner_def)
  have gz: "install runner_gzip_fails [] =
       (Inl (Error ''Unable to install coursier or managed tools''),
        [CoreDebug ''Installing coursier from https://example.org/cs.gz'',
         MkdirP ''/home/runner/bin'',
         DownloadTool ''https://example.org/cs.gz'' ''/home/runner/bin/cs.gz'',
         Exec ''gzip'' [''-d'', ''/home/runner/bin/cs.gz''] \<lparr>silent = True, ignoreReturnCode = False\<rparr>,
         CoreDebug (''The process '' @ [CHR 0x27] @ ''/usr/bin/gzip'' @ [CHR 0x27]
                     @ '' failed with exit code 1'')])"
    using install_outcomes [of runner_gzip_fails "[]"]
    by (simp add: runner_gzip_fails_def runner_def Let_def strict_failure_def toString_1)
  show ?thesis
    using ok eff off gz by simp
qed

subsection \<open>remove\<close>

lemma quiet_debug:
  "effects (snd (fold (notify \<lparr>stdout = None, stdline = Some CoreDebug, errline = Some CoreDebug\<rparr>)
                   es (l, []))) = []"
  using effects_fold_notify
          [of "\<lparr>stdout = None, stdline = Some CoreDebug, errline = Some CoreDebug\<rparr>" es l "[]"]
  by (simp add: effects_Nil)

lemma remove_effects_prefix:
  "prefix (effects (appended (remove env) tr))
     [RmRF (join env [homedir env, ''.cache'', ''coursier'', ''v1'']),
      Exec ''cs'' [''uninstall'', ''--all''] \<lparr>silent = True, ignoreReturnCode = True\<rparr>,
      RmRF (join env [homedir env, ''bin'', ''cs'']),
      RmRF (join env [homedir env, ''bin'', ''scalafmt'']),
      RmRF (join env [homedir env, ''bin'', ''scalafix''])]"
  by (simp add: remove_def io_bind_def io_rmRF_def exec_exec_run appended_def effects_append
        effects_Cons effects_Nil quiet_debug split: sum.splits)

lemma remove_effects_complete:
  "fst (remove env tr) = Inr () \<Longrightarrow>
   effects (appended (remove env) tr) =
     [RmRF (join env [homedir env, ''.cache'', ''coursier'', ''v1'']),
      Exec ''cs'' [''uninstall'', ''--all''] \<lparr>silent = True, ignoreReturnCode = True\<rparr>,
      RmRF (join env [homedir env, ''bin'', ''cs'']),
      RmRF (join env [homedir env, ''bin'', ''scalafmt'']),
      RmRF (join env [homedir env, ''bin'', ''scalafix''])]"
  by (simp add: remove_def io_bind_def io_rmRF_def exec_exec_run appended_def effects_append
        effects_Cons effects_Nil quiet_debug split: sum.splits)




text \<open>
  Claim C10, as amended. The effects of \<open>remove\<close> are always an initial segment of one
  fixed sequence: delete the cache directory, run \<^verbatim>\<open>cs uninstall --all\<close>, delete the
  binaries \<^verbatim>\<open>cs\<close>, \<^verbatim>\<open>scalafmt\<close> and \<^verbatim>\<open>scalafix\<close> in the binary directory; so no other
  path is ever deleted. When \<open>remove\<close> returns normally its effects are the whole
  sequence: exactly these four deletions, no others.
\<close>

theorem remove_deletion_sequence:
  fixes env :: env and tr :: trace
  defines "steps \<equiv>
     [RmRF (join env [homedir env, ''.cache'', ''coursier'', ''v1'']),
      Exec ''cs'' [''uninstall'', ''--all''] \<lparr>silent = True, ignoreReturnCode = True\<rparr>,
      RmRF (join env [homedir env, ''bin'', ''cs'']),
      RmRF (join env [homedir env, ''bin'', ''scalafmt'']),
      RmRF (join env [homedir env, ''bin'', ''scalafix''])]"
  shows "prefix (effects (appended (remove env) tr)) steps
       \<and> (fst (remove env tr) = Inr () \<longrightarrow> effects (appended (remove env) tr) = steps)"
  unfolding steps_def
  using remove_effects_prefix [of env tr] remove_effects_complete [of env tr] by blast

theorem remove_deletion_sequence_witness:
  "fst (remove runner []) = Inr ()
   \<and> effects (appended (remove runner) []) =
       [RmRF ''/home/runner/.cache/coursier/v1'',
        Exec ''cs'' [''uninstall'', ''--all''] \<lparr>silent = True, ignoreReturnCode = True\<rparr>,
        RmRF ''/home/runner/bin/cs'',
        RmRF ''/home/runner/bin/scalafmt'',
        RmRF ''/home/runner/bin/scalafix'']"
proof -
  have r: "fst (remove runner []) = Inr ()"
    by (simp add: run_defs runner_def)
  show ?thesis
    using r remove_deletion_sequence [of runner "[]"] by (simp add: runner_def)
qed


text \<open>
  The claim as first stated, that \<open>remove\<close> deletes exactly four paths, fails when a call
  rejects: on a runner without an installation the three binaries are never deleted.
\<close>

theorem remove_stops_at_rejection:
  "effects (appended (remove runner_without_cs) []) =
     [RmRF ''/home/runner/.cache/coursier/v1'',
      Exec ''cs'' [''uninstall'', ''--all''] \<lparr>silent = True, ignoreReturnCode = True\<rparr>]"
  by (simp add: run_defs runner_without_cs_def runner_def appended_def effects_def)

end
